theory Spec2Isabelle
  imports Main "HOL-Library.Sublist"
begin

section \<open>Custom fields: values, definitions, validation and data synchronisation\<close>

text \<open>
  A shallow embedding of \<^verbatim>\<open>netbox/extras/models/customfields.py\<close>: the class
  \<^verbatim>\<open>CustomField\<close> with its methods \<^verbatim>\<open>validate\<close>, \<^verbatim>\<open>clean\<close>,
  \<^verbatim>\<open>to_form_field\<close>, \<^verbatim>\<open>populate_initial_data\<close>, \<^verbatim>\<open>remove_stale_data\<close> and
  \<^verbatim>\<open>rename_object_data\<close>. Exceptions are values of a sum type, the object store is
  passed explicitly, and the pieces of the Python library that the methods call
  (\<^verbatim>\<open>==\<close>, \<^verbatim>\<open>in\<close>, \<^verbatim>\<open>str\<close>, \<^verbatim>\<open>re.match\<close>, \<^verbatim>\<open>datetime.strptime\<close>) are
  functions of their own.
\<close>

subsection \<open>Python values\<close>

text \<open>
  The values a custom field can meet: what a JSON document decodes to (null, booleans,
  integers, strings, arrays), and the \<^verbatim>\<open>date\<close> and \<^verbatim>\<open>datetime\<close> objects a form
  hands over. Floating-point numbers and JSON objects are left out. Strings are lists
  of 8-bit characters, read as ASCII.
\<close>

datatype pyval =
    PNone
  | PBool bool
  | PInt int
  | PStr string
  | PList "pyval list"
  | PDate nat nat nat
  | PDateTime nat nat nat nat nat nat nat

text \<open>Python's \<^verbatim>\<open>==\<close>: a boolean equals the integer 1 or 0; a date never equals a datetime.\<close>

fun py_eq :: "pyval \<Rightarrow> pyval \<Rightarrow> bool" where
  "py_eq PNone PNone = True"
| "py_eq (PBool a) (PBool b) = (a = b)"
| "py_eq (PBool a) (PInt i) = ((if a then 1 else 0) = i)"
| "py_eq (PInt i) (PBool a) = (i = (if a then 1 else 0))"
| "py_eq (PInt i) (PInt j) = (i = j)"
| "py_eq (PStr s) (PStr t) = (s = t)"
| "py_eq (PList xs) (PList ys) = list_all2 py_eq xs ys"
| "py_eq (PDate y m d) (PDate y' m' d') = (y = y' \<and> m = m' \<and> d = d')"
| "py_eq (PDateTime y m d h mi s us) (PDateTime y' m' d' h' mi' s' us') =
     (y = y' \<and> m = m' \<and> d = d' \<and> h = h' \<and> mi = mi' \<and> s = s' \<and> us = us')"
| "py_eq _ _ = False"

text \<open>\<^verbatim>\<open>x in xs\<close> for a list \<^verbatim>\<open>xs\<close>: some element equals \<^verbatim>\<open>x\<close>.\<close>

definition py_in :: "pyval \<Rightarrow> pyval list \<Rightarrow> bool" where
  "py_in x xs = list_ex (py_eq x) xs"

text \<open>Truth value testing, as \<^verbatim>\<open>if x\<close> and \<^verbatim>\<open>x and y\<close> do it.\<close>

fun py_truthy :: "pyval \<Rightarrow> bool" where
  "py_truthy PNone = False"
| "py_truthy (PBool b) = b"
| "py_truthy (PInt i) = (i \<noteq> 0)"
| "py_truthy (PStr s) = (s \<noteq> [])"
| "py_truthy (PList xs) = (xs \<noteq> [])"
| "py_truthy (PDate y m d) = True"
| "py_truthy (PDateTime y m d h mi s us) = True"

subsection \<open>Errors\<close>

text \<open>
  Every \<^verbatim>\<open>ValidationError\<close> of the source is raised with a message; a message is kept
  as its template and the values put into it. \<^verbatim>\<open>ValidationErrorDict\<close> is the form
  \<^verbatim>\<open>ValidationError({attribute: message})\<close> that \<^verbatim>\<open>clean\<close> raises. \<^verbatim>\<open>TypeError\<close> and
  \<^verbatim>\<open>KeyError\<close> are the interpreter's own exceptions, which no handler of the source
  catches.
\<close>

datatype message =
    Value_must_be_a_string
  | Value_must_match_regex
  | Value_must_be_an_integer
  | Value_must_be_at_least int
  | Value_must_not_exceed int
  | Value_must_be_true_or_false
  | Date_values_must_be_in_the_format
  | Invalid_choice pyval "string list"
  | Invalid_choices string "string list"
  | Required_field_cannot_be_empty
  | Invalid_default_value pyval message
  | Minimum_only_for_numeric_fields
  | Maximum_only_for_numeric_fields
  | Regex_only_for_text_and_URL_fields
  | Choices_only_for_selection_fields
  | Selection_fields_need_two_choices
  | Default_is_not_an_available_choice pyval

datatype error =
    ValidationError message
  | ValidationErrorDict string message
  | TypeError
  | KeyError

text \<open>Sequencing of two statements: the second runs when the first did not raise.\<close>

definition and_then :: "error + unit \<Rightarrow> error + 'a \<Rightarrow> error + 'a" where
  "and_then a b = (case a of Inl e \<Rightarrow> Inl e | Inr _ \<Rightarrow> b)"

subsection \<open>Regular expressions: \<^verbatim>\<open>re.match\<close>\<close>

text \<open>
  A pattern in parsed form. \<^verbatim>\<open>Dot\<close> is \<^verbatim>\<open>.\<close> (any character but a newline),
  \<^verbatim>\<open>Cls\<close> and \<^verbatim>\<open>NCls\<close> are a character class and a negated one, \<^verbatim>\<open>Bol\<close> and
  \<^verbatim>\<open>Eol\<close> are the anchors \<^verbatim>\<open>^\<close> and \<^verbatim>\<open>$\<close> (without the MULTILINE flag:
  \<^verbatim>\<open>^\<close> holds at position 0 only, \<^verbatim>\<open>$\<close> at the end of the string and just before a
  newline that ends it). \<^verbatim>\<open>Eos\<close> is \<^verbatim>\<open>\Z\<close> (the end of the string only), \<^verbatim>\<open>Wordb\<close>
  is the word boundary \<^verbatim>\<open>\b\<close>, and \<^verbatim>\<open>NotAhead r\<close> is the negative lookahead
  \<^verbatim>\<open>(?!r)\<close>. The patterns of \<^verbatim>\<open>re\<close> that are not built from these (groups that are
  referred back to, lookbehind, flags, lazy repetition) have no term of this type.
\<close>

datatype rx =
    Eps
  | Chr char
  | Dot
  | Cls "char list"
  | NCls "char list"
  | Seq rx rx
  | Alt rx rx
  | Star rx
  | Bol
  | Eol
  | Eos
  | Wordb
  | NotAhead rx

text \<open>
  \<open>rx_ends r s i\<close> lists the positions where a match of \<open>r\<close> that starts at position
  \<open>i\<close> of \<open>s\<close> can end. An iteration of a star that consumes nothing adds no
  position, so only iterations that move forward are followed.
\<close>

text \<open>The characters \<^verbatim>\<open>\w\<close> matches: letters, digits and the underscore.\<close>

definition is_word :: "char \<Rightarrow> bool" where
  "is_word c =
     (c \<in> set ''abcdefghijklmnopqrstuvwxyzABCDEFGHIJKLMNOPQRSTUVWXYZ0123456789_'')"

function rx_ends :: "rx \<Rightarrow> string \<Rightarrow> nat \<Rightarrow> nat list" where
  "rx_ends Eps s i = [i]"
| "rx_ends (Chr c) s i = (if i < length s \<and> s ! i = c then [Suc i] else [])"
| "rx_ends Dot s i = (if i < length s \<and> s ! i \<noteq> CHR 0x0A then [Suc i] else [])"
| "rx_ends (Cls cs) s i = (if i < length s \<and> s ! i \<in> set cs then [Suc i] else [])"
| "rx_ends (NCls cs) s i = (if i < length s \<and> s ! i \<notin> set cs then [Suc i] else [])"
| "rx_ends (Seq a b) s i = concat (map (rx_ends b s) (rx_ends a s i))"
| "rx_ends (Alt a b) s i = rx_ends a s i @ rx_ends b s i"
| "rx_ends (Star a) s i =
     i # concat (map (rx_ends (Star a) s)
                     (filter (\<lambda>k. i < k \<and> k \<le> length s) (rx_ends a s i)))"
| "rx_ends Bol s i = (if i = 0 then [i] else [])"
| "rx_ends Eol s i =
     (if i = length s \<or> (Suc i = length s \<and> s ! i = CHR 0x0A) then [i] else [])"
| "rx_ends Eos s i = (if i = length s then [i] else [])"
| "rx_ends Wordb s i =
     (if (0 < i \<and> i \<le> length s \<and> is_word (s ! (i - 1))) \<noteq> (i < length s \<and> is_word (s ! i))
      then [i] else [])"
| "rx_ends (NotAhead a) s i = (if rx_ends a s i = [] then [i] else [])"
  by pat_completeness auto
termination
  by (relation "measures [\<lambda>(r, s, i). size r, \<lambda>(r, s, i). length s - i]") auto

text \<open>\<^verbatim>\<open>re.match(r, s)\<close> returns a match object when a match starts at position 0.\<close>

definition re_match :: "rx \<Rightarrow> string \<Rightarrow> bool" where
  "re_match r s = (rx_ends r s 0 \<noteq> [])"

text \<open>\<^verbatim>\<open>re.fullmatch(r, s)\<close>: a match that starts at position 0 and ends at the end.\<close>

definition re_fullmatch :: "rx \<Rightarrow> string \<Rightarrow> bool" where
  "re_fullmatch r s = (length s \<in> set (rx_ends r s 0))"

text \<open>
  Whether a pattern holds an assertion about the text that follows the position
  reached: \<^verbatim>\<open>$\<close>, \<^verbatim>\<open>\Z\<close>, \<^verbatim>\<open>\b\<close> or a lookahead.
\<close>

fun looks_ahead :: "rx \<Rightarrow> bool" where
  "looks_ahead Eol = True"
| "looks_ahead Eos = True"
| "looks_ahead Wordb = True"
| "looks_ahead (NotAhead a) = True"
| "looks_ahead (Seq a b) = (looks_ahead a \<or> looks_ahead b)"
| "looks_ahead (Alt a b) = (looks_ahead a \<or> looks_ahead b)"
| "looks_ahead (Star a) = looks_ahead a"
| "looks_ahead _ = False"

subsection \<open>Dates: \<^verbatim>\<open>datetime.strptime(value, '%Y-%m-%d')\<close>\<close>

definition is_digit :: "char \<Rightarrow> bool" where
  "is_digit c = (c \<in> set ''0123456789'')"

definition digit_val :: "char \<Rightarrow> nat" where
  "digit_val c = of_char c - 48"

definition is_leap :: "nat \<Rightarrow> bool" where
  "is_leap y = (y mod 4 = 0 \<and> (y mod 100 \<noteq> 0 \<or> y mod 400 = 0))"

definition days_in_month :: "nat \<Rightarrow> nat \<Rightarrow> nat" where
  "days_in_month y m =
     (if m = 2 then (if is_leap y then 29 else 28)
      else if m \<in> {4, 6, 9, 11} then 30 else 31)"

text \<open>
  The directive \<^verbatim>\<open>%m\<close> is the pattern \<^verbatim>\<open>1[0-2]|0[1-9]|[1-9]\<close> and \<^verbatim>\<open>%d\<close> is
  \<^verbatim>\<open>3[0-1]|[1-2]\d|0[1-9]|[1-9]| [1-9]\<close>; the first alternative that matches is taken.
  Each function returns the number read and the rest of the string.
\<close>

fun strptime_month :: "string \<Rightarrow> (nat \<times> string) option" where
  "strptime_month (a # b # rest) =
     (if a = CHR ''1'' \<and> b \<in> set ''012'' then Some (10 + digit_val b, rest)
      else if a = CHR ''0'' \<and> b \<in> set ''123456789'' then Some (digit_val b, rest)
      else if a \<in> set ''123456789'' then Some (digit_val a, b # rest)
      else None)"
| "strptime_month [a] = (if a \<in> set ''123456789'' then Some (digit_val a, []) else None)"
| "strptime_month [] = None"

fun strptime_day :: "string \<Rightarrow> (nat \<times> string) option" where
  "strptime_day (a # b # rest) =
     (if a = CHR ''3'' \<and> b \<in> set ''01'' then Some (30 + digit_val b, rest)
      else if a \<in> set ''12'' \<and> is_digit b then Some (10 * digit_val a + digit_val b, rest)
      else if a = CHR ''0'' \<and> b \<in> set ''123456789'' then Some (digit_val b, rest)
      else if a \<in> set ''123456789'' then Some (digit_val a, b # rest)
      else if a = CHR '' '' \<and> b \<in> set ''123456789'' then Some (digit_val b, rest)
      else None)"
| "strptime_day [a] = (if a \<in> set ''123456789'' then Some (digit_val a, []) else None)"
| "strptime_day [] = None"

text \<open>
  \<open>strptime_ymd s\<close> is the date read from \<open>s\<close>, and \<open>None\<close> where \<^verbatim>\<open>strptime\<close>
  raises \<^verbatim>\<open>ValueError\<close>: the string does not match the format, text remains after
  the day, or the numbers are not a date of the calendar (years start at 1).
\<close>

definition strptime_ymd :: "string \<Rightarrow> (nat \<times> nat \<times> nat) option" where
  "strptime_ymd s =
     (case s of
        y1 # y2 # y3 # y4 # sep # rest \<Rightarrow>
          if is_digit y1 \<and> is_digit y2 \<and> is_digit y3 \<and> is_digit y4 \<and> sep = CHR ''-'' then
            (case strptime_month rest of
               Some (m, sep' # rest') \<Rightarrow>
                 if sep' = CHR ''-'' then
                   (case strptime_day rest' of
                      Some (d, []) \<Rightarrow>
                        (let y = 1000 * digit_val y1 + 100 * digit_val y2
                                 + 10 * digit_val y3 + digit_val y4
                         in if 1 \<le> y \<and> d \<le> days_in_month y m then Some (y, m, d) else None)
                    | _ \<Rightarrow> None)
                 else None
             | _ \<Rightarrow> None)
          else None
      | _ \<Rightarrow> None)"

subsection \<open>The field definition\<close>

text \<open>
  Modelled from the spec: the constants of \<^verbatim>\<open>extras.choices\<close>
  (\<^verbatim>\<open>CustomFieldTypeChoices\<close>, \<^verbatim>\<open>CustomFieldFilterLogicChoices\<close>), which the class
  imports; the spec gives the field types as the closed set text, integer, boolean,
  date, url, select, multiselect and the filter logic as loose or exact.
\<close>

datatype field_type =
    TYPE_TEXT
  | TYPE_INTEGER
  | TYPE_BOOLEAN
  | TYPE_DATE
  | TYPE_URL
  | TYPE_SELECT
  | TYPE_MULTISELECT

datatype filter_logic = FILTER_LOOSE | FILTER_EXACT

text \<open>
  The model's columns. A content type is named by its number. \<open>cf_validation_regex\<close>
  holds the pattern in parsed form, \<open>None\<close> for the blank string; \<open>cf_choices\<close> is
  \<open>None\<close> for a null array.
\<close>

record custom_field =
  cf_content_types :: "nat list"
  cf_type :: field_type
  cf_name :: string
  cf_label :: string
  cf_description :: string
  cf_required :: bool
  cf_filter_logic :: filter_logic
  cf_default :: pyval
  cf_weight :: nat
  cf_validation_minimum :: "int option"
  cf_validation_maximum :: "int option"
  cf_validation_regex :: "rx option"
  cf_choices :: "string list option"

subsection \<open>\<^verbatim>\<open>CustomField.validate\<close>\<close>

text \<open>Iterating over a value: a string yields its characters, a list its elements.\<close>

fun py_iter :: "pyval \<Rightarrow> error + pyval list" where
  "py_iter (PStr s) = Inr (map (\<lambda>c. PStr [c]) s)"
| "py_iter (PList xs) = Inr xs"
| "py_iter _ = Inl TypeError"

fun py_hashable :: "pyval \<Rightarrow> bool" where
  "py_hashable (PList xs) = False"
| "py_hashable _ = True"

text \<open>\<^verbatim>\<open>set(value)\<close>, kept as the list of its elements.\<close>

definition py_set :: "pyval \<Rightarrow> error + pyval list" where
  "py_set v =
     (case py_iter v of
        Inl e \<Rightarrow> Inl e
      | Inr xs \<Rightarrow> if list_all py_hashable xs then Inr xs else Inl TypeError)"

text \<open>
  \<^verbatim>\<open>xs.issubset(choices)\<close>: every element of the set equals one of the choices,
  which are strings. The same call on \<^verbatim>\<open>None\<close> in the place of the choices raises
  \<^verbatim>\<open>TypeError\<close>, which \<open>validate\<close> below writes out.
\<close>

definition issubset :: "pyval list \<Rightarrow> string list \<Rightarrow> bool" where
  "issubset xs cs = list_all (\<lambda>x. py_in x (map PStr cs)) xs"

fun is_str :: "pyval \<Rightarrow> bool" where
  "is_str (PStr s) = True"
| "is_str _ = False"

fun str_of :: "pyval \<Rightarrow> string" where
  "str_of (PStr s) = s"
| "str_of _ = []"

fun join :: "string \<Rightarrow> string list \<Rightarrow> string" where
  "join sep [] = []"
| "join sep [x] = x"
| "join sep (x # y # ys) = x @ sep @ join sep (y # ys)"

text \<open>\<^verbatim>\<open>sep.join(value)\<close>: every item has to be a string.\<close>

definition py_join :: "string \<Rightarrow> pyval \<Rightarrow> error + string" where
  "py_join sep v =
     (case py_iter v of
        Inl e \<Rightarrow> Inl e
      | Inr xs \<Rightarrow> if list_all is_str xs then Inr (join sep (map str_of xs)) else Inl TypeError)"

text \<open>
  \<^verbatim>\<open>validate(self, value)\<close>. The result \<open>Inr ()\<close> is a normal return; \<open>Inl e\<close> is the
  exception \<open>e\<close> leaving the method.
\<close>

definition validate :: "custom_field \<Rightarrow> pyval \<Rightarrow> error + unit" where
  "validate self v =
     (if \<not> py_in v [PNone, PStr []] then
        and_then
          (if cf_type self = TYPE_TEXT then
             (if \<not> is_str v then Inl (ValidationError Value_must_be_a_string)
              else
                (case cf_validation_regex self of
                   None \<Rightarrow> Inr ()
                 | Some r \<Rightarrow>
                     if \<not> re_match r (str_of v) then Inl (ValidationError Value_must_match_regex)
                     else Inr ()))
           else Inr ())
       (and_then
          (if cf_type self = TYPE_INTEGER then
             (case v of
                PInt i \<Rightarrow>
                  and_then
                    (case cf_validation_minimum self of
                       None \<Rightarrow> Inr ()
                     | Some lo \<Rightarrow>
                         if i < lo then Inl (ValidationError (Value_must_be_at_least lo))
                         else Inr ())
                    (case cf_validation_maximum self of
                       None \<Rightarrow> Inr ()
                     | Some hi \<Rightarrow>
                         if i > hi then Inl (ValidationError (Value_must_not_exceed hi))
                         else Inr ())
              | _ \<Rightarrow> Inl (ValidationError Value_must_be_an_integer))
           else Inr ())
       (and_then
          (if cf_type self = TYPE_BOOLEAN
              \<and> \<not> py_in v [PBool True, PBool False, PInt 1, PInt 0]
           then Inl (ValidationError Value_must_be_true_or_false)
           else Inr ())
       (and_then
          (if cf_type self = TYPE_DATE then
             (case v of
                PDate y m d \<Rightarrow> Inr ()
              | PStr s \<Rightarrow>
                  (case strptime_ymd s of
                     None \<Rightarrow> Inl (ValidationError Date_values_must_be_in_the_format)
                   | Some _ \<Rightarrow> Inr ())
              | _ \<Rightarrow> Inl TypeError)
           else Inr ())
       (and_then
          (if cf_type self = TYPE_SELECT then
             (case cf_choices self of
                None \<Rightarrow> Inl TypeError
              | Some cs \<Rightarrow>
                  if \<not> py_in v (map PStr cs) then Inl (ValidationError (Invalid_choice v cs))
                  else Inr ())
           else Inr ())
          (if cf_type self = TYPE_MULTISELECT then
             (case py_set v of
                Inl e \<Rightarrow> Inl e
              | Inr xs \<Rightarrow>
                  (case cf_choices self of
                     None \<Rightarrow> Inl TypeError
                   | Some cs \<Rightarrow>
                       if \<not> issubset xs cs then
                         (case py_join '', '' v of
                            Inl e \<Rightarrow> Inl e
                          | Inr joined \<Rightarrow> Inl (ValidationError (Invalid_choices joined cs)))
                       else Inr ()))
           else Inr ())))))
      else if cf_required self then Inl (ValidationError Required_field_cannot_be_empty)
      else Inr ())"

subsection \<open>\<^verbatim>\<open>str\<close> of a value\<close>

function dec :: "nat \<Rightarrow> string" where
  "dec n = (if n < 10 then [char_of (48 + n)] else dec (n div 10) @ [char_of (48 + n mod 10)])"
  by pat_completeness auto
termination
  by (relation "measure (\<lambda>n. n)") auto

definition str_int :: "int \<Rightarrow> string" where
  "str_int i = (if i < 0 then CHR ''-'' # dec (nat (- i)) else dec (nat i))"

text \<open>A number written with at least \<open>w\<close> digits, as \<^verbatim>\<open>%02d\<close> and \<^verbatim>\<open>%04d\<close> do.\<close>

definition zero_pad :: "nat \<Rightarrow> nat \<Rightarrow> string" where
  "zero_pad w n = replicate (w - length (dec n)) CHR ''0'' @ dec n"

definition hex_digit :: "nat \<Rightarrow> char" where
  "hex_digit n = ''0123456789abcdef'' ! (n mod 16)"

text \<open>
  \<^verbatim>\<open>repr\<close> of a string: in single quotes, or in double quotes when the string holds a
  single quote and no double quote; the quote and the backslash are escaped, control
  characters are written as \<^verbatim>\<open>\t\<close>, \<^verbatim>\<open>\n\<close>, \<^verbatim>\<open>\r\<close> or \<^verbatim>\<open>\xNN\<close>.
\<close>

definition repr_quote :: "string \<Rightarrow> char" where
  "repr_quote s = (if CHR 0x27 \<in> set s \<and> CHR 0x22 \<notin> set s then CHR 0x22 else CHR 0x27)"

definition repr_char :: "char \<Rightarrow> char \<Rightarrow> string" where
  "repr_char q c =
     (if c = q \<or> c = CHR 0x5C then [CHR 0x5C, c]
      else if c = CHR 0x09 then [CHR 0x5C, CHR ''t'']
      else if c = CHR 0x0A then [CHR 0x5C, CHR ''n'']
      else if c = CHR 0x0D then [CHR 0x5C, CHR ''r'']
      else if (of_char c :: nat) < 32 \<or> (of_char c :: nat) = 127 then
        [CHR 0x5C, CHR ''x'', hex_digit (of_char c div 16), hex_digit (of_char c)]
      else [c])"

definition repr_str :: "string \<Rightarrow> string" where
  "repr_str s = repr_quote s # concat (map (repr_char (repr_quote s)) s) @ [repr_quote s]"

fun py_repr :: "pyval \<Rightarrow> string" where
  "py_repr PNone = ''None''"
| "py_repr (PBool b) = (if b then ''True'' else ''False'')"
| "py_repr (PInt i) = str_int i"
| "py_repr (PStr s) = repr_str s"
| "py_repr (PList xs) = ''['' @ join '', '' (map py_repr xs) @ '']''"
| "py_repr (PDate y m d) =
     ''datetime.date('' @ join '', '' (map dec [y, m, d]) @ '')''"
| "py_repr (PDateTime y m d h mi s us) =
     ''datetime.datetime(''
       @ join '', '' (map dec ([y, m, d, h, mi]
                               @ (if us \<noteq> 0 then [s, us] else if s \<noteq> 0 then [s] else [])))
       @ '')''"

fun py_str :: "pyval \<Rightarrow> string" where
  "py_str (PStr s) = s"
| "py_str (PDate y m d) = zero_pad 4 y @ ''-'' @ zero_pad 2 m @ ''-'' @ zero_pad 2 d"
| "py_str (PDateTime y m d h mi s us) =
     zero_pad 4 y @ ''-'' @ zero_pad 2 m @ ''-'' @ zero_pad 2 d @ '' ''
       @ zero_pad 2 h @ '':'' @ zero_pad 2 mi @ '':'' @ zero_pad 2 s
       @ (if us \<noteq> 0 then ''.'' @ zero_pad 6 us else [])"
| "py_str v = py_repr v"

subsection \<open>\<^verbatim>\<open>CustomField.clean\<close>\<close>

text \<open>The value \<^verbatim>\<open>clean\<close> hands to \<^verbatim>\<open>validate\<close>: the default, as a string for a text field.\<close>

definition default_value :: "custom_field \<Rightarrow> pyval" where
  "default_value self =
     (if cf_type self = TYPE_TEXT then PStr (py_str (cf_default self)) else cf_default self)"

text \<open>The truth value of \<^verbatim>\<open>self.choices\<close>: false for \<^verbatim>\<open>None\<close> and for the empty list.\<close>

fun choices_truthy :: "string list option \<Rightarrow> bool" where
  "choices_truthy None = False"
| "choices_truthy (Some cs) = (cs \<noteq> [])"

text \<open>\<^verbatim>\<open>x not in self.choices\<close>; \<^verbatim>\<open>None\<close> in the place of the list raises.\<close>

definition not_in_choices :: "pyval \<Rightarrow> string list option \<Rightarrow> error + bool" where
  "not_in_choices x choices =
     (case choices of
        None \<Rightarrow> Inl TypeError
      | Some cs \<Rightarrow> Inr (\<not> py_in x (map PStr cs)))"

definition clean :: "custom_field \<Rightarrow> error + unit" where
  "clean self =
     and_then
       (if cf_default self \<noteq> PNone then
          (case validate self (default_value self) of
             Inl (ValidationError m) \<Rightarrow>
               Inl (ValidationErrorDict ''default'' (Invalid_default_value (cf_default self) m))
           | Inl e \<Rightarrow> Inl e
           | Inr _ \<Rightarrow> Inr ())
        else Inr ())
    (and_then
       (if cf_validation_minimum self \<noteq> None \<and> cf_type self \<noteq> TYPE_INTEGER then
          Inl (ValidationErrorDict ''validation_minimum'' Minimum_only_for_numeric_fields)
        else Inr ())
    (and_then
       (if cf_validation_maximum self \<noteq> None \<and> cf_type self \<noteq> TYPE_INTEGER then
          Inl (ValidationErrorDict ''validation_maximum'' Maximum_only_for_numeric_fields)
        else Inr ())
    (and_then
       (if cf_validation_regex self \<noteq> None
           \<and> cf_type self \<noteq> TYPE_TEXT \<and> cf_type self \<noteq> TYPE_URL then
          Inl (ValidationErrorDict ''validation_regex'' Regex_only_for_text_and_URL_fields)
        else Inr ())
    (and_then
       (if choices_truthy (cf_choices self)
           \<and> cf_type self \<noteq> TYPE_SELECT \<and> cf_type self \<noteq> TYPE_MULTISELECT then
          Inl (ValidationErrorDict ''choices'' Choices_only_for_selection_fields)
        else Inr ())
    (and_then
       (if cf_type self = TYPE_SELECT \<and> choices_truthy (cf_choices self)
           \<and> length (case cf_choices self of None \<Rightarrow> [] | Some cs \<Rightarrow> cs) < 2 then
          Inl (ValidationErrorDict ''choices'' Selection_fields_need_two_choices)
        else Inr ())
       (if cf_type self = TYPE_SELECT \<and> py_truthy (cf_default self) then
          (case not_in_choices (cf_default self) (cf_choices self) of
             Inl e \<Rightarrow> Inl e
           | Inr missing \<Rightarrow>
               if missing then
                 Inl (ValidationErrorDict ''default''
                        (Default_is_not_an_available_choice (cf_default self)))
               else Inr ())
        else Inr ()))))))"

subsection \<open>\<^verbatim>\<open>CustomField.to_form_field\<close>\<close>

datatype field_class =
    IntegerField
  | NullBooleanField
  | DateField
  | ChoiceField
  | MultipleChoiceField
  | CSVChoiceField
  | LaxURLField
  | CharField

datatype widget =
    Default_widget
  | StaticSelect2 "(pyval \<times> string) list"
  | StaticSelect2Multiple
  | DatePicker

text \<open>
  The form field the method builds: its class, the arguments of the constructor and
  the attributes set afterwards. \<open>ff_validators\<close> lists the patterns of the
  \<^verbatim>\<open>RegexValidator\<close>s.
\<close>

record form_field =
  ff_class :: field_class
  ff_required :: bool
  ff_initial :: pyval
  ff_widget :: widget
  ff_min_value :: "int option"
  ff_max_value :: "int option"
  ff_max_length :: "nat option"
  ff_choices :: "(pyval \<times> string) list"
  ff_validators :: "rx list"
  ff_model :: custom_field
  ff_label :: string
  ff_help_text :: string

text \<open>
  Modelled from the spec: \<^verbatim>\<open>utilities.forms.add_blank_choice\<close>, which the class
  imports; the spec has the choice list "prefixed with a blank/no-value option".
\<close>

definition add_blank_choice :: "(pyval \<times> string) list \<Rightarrow> (pyval \<times> string) list" where
  "add_blank_choice choices = (PNone, ''---------'') # choices"

definition ascii_upper :: "char \<Rightarrow> char" where
  "ascii_upper c =
     (if (97::nat) \<le> of_char c \<and> (of_char c :: nat) \<le> 122 then char_of (of_char c - (32::nat))
      else c)"

definition ascii_lower :: "char \<Rightarrow> char" where
  "ascii_lower c =
     (if (65::nat) \<le> of_char c \<and> (of_char c :: nat) \<le> 90 then char_of (of_char c + (32::nat))
      else c)"

text \<open>\<^verbatim>\<open>s.capitalize()\<close>: the first character in upper case, the others in lower case.\<close>

fun capitalize :: "string \<Rightarrow> string" where
  "capitalize [] = []"
| "capitalize (c # cs) = ascii_upper c # map ascii_lower cs"

text \<open>\<^verbatim>\<open>__str__\<close>: the label, or the name with spaces for underscores, capitalised.\<close>

definition str_field :: "custom_field \<Rightarrow> string" where
  "str_field self =
     (if cf_label self \<noteq> [] then cf_label self
      else capitalize (map (\<lambda>c. if c = CHR ''_'' then CHR '' '' else c) (cf_name self)))"

definition boolean_choices :: "(pyval \<times> string) list" where
  "boolean_choices =
     [(PNone, ''---------''), (PBool True, ''True''), (PBool False, ''False'')]"

text \<open>The field every branch starts from: what a constructor leaves unset.\<close>

definition plain_field :: "custom_field \<Rightarrow> field_class \<Rightarrow> bool \<Rightarrow> pyval \<Rightarrow> form_field" where
  "plain_field self cls required initial =
     \<lparr> ff_class = cls, ff_required = required, ff_initial = initial,
       ff_widget = Default_widget, ff_min_value = None, ff_max_value = None,
       ff_max_length = None, ff_choices = [], ff_validators = [],
       ff_model = self, ff_label = str_field self,
       ff_help_text = (if cf_description self \<noteq> [] then cf_description self else []) \<rparr>"

definition to_form_field :: "custom_field \<Rightarrow> bool \<Rightarrow> bool \<Rightarrow> bool \<Rightarrow> error + form_field" where
  "to_form_field self set_initial enforce_required for_csv_import =
     (let initial = (if set_initial then cf_default self else PNone);
          required = (if enforce_required then cf_required self else False)
      in
        if cf_type self = TYPE_INTEGER then
          Inr ((plain_field self IntegerField required initial)
                 \<lparr> ff_min_value := cf_validation_minimum self,
                   ff_max_value := cf_validation_maximum self \<rparr>)
        else if cf_type self = TYPE_BOOLEAN then
          Inr ((plain_field self NullBooleanField required initial)
                 \<lparr> ff_widget := StaticSelect2 boolean_choices \<rparr>)
        else if cf_type self = TYPE_DATE then
          Inr ((plain_field self DateField required initial) \<lparr> ff_widget := DatePicker \<rparr>)
        else if cf_type self = TYPE_SELECT \<or> cf_type self = TYPE_MULTISELECT then
          (case cf_choices self of
             None \<Rightarrow> Inl TypeError
           | Some cs \<Rightarrow>
               (let choices = map (\<lambda>c. (PStr c, c)) cs;
                    default_choice =
                      (if py_in (cf_default self) (map PStr cs) then cf_default self else PNone);
                    choices' =
                      (if \<not> required \<or> default_choice = PNone then add_blank_choice choices
                       else choices);
                    initial' =
                      (if set_initial \<and> py_truthy default_choice then default_choice
                       else initial)
                in
                  if cf_type self = TYPE_SELECT then
                    Inr ((plain_field self
                            (if for_csv_import then CSVChoiceField else ChoiceField)
                            required initial')
                           \<lparr> ff_choices := choices', ff_widget := StaticSelect2 [] \<rparr>)
                  else
                    Inr ((plain_field self
                            (if for_csv_import then CSVChoiceField else MultipleChoiceField)
                            required initial')
                           \<lparr> ff_choices := choices', ff_widget := StaticSelect2Multiple \<rparr>)))
        else if cf_type self = TYPE_URL then
          Inr (plain_field self LaxURLField required initial)
        else
          Inr ((plain_field self CharField required initial)
                 \<lparr> ff_max_length := Some 255,
                   ff_validators :=
                     (case cf_validation_regex self of None \<Rightarrow> [] | Some r \<Rightarrow> [r]) \<rparr>))"

subsection \<open>The object store and the three bulk operations\<close>












subsection \<open>Example definitions\<close>

text \<open>A text field with nothing set, from which the examples below are derived.\<close>

definition example_field :: custom_field where
  "example_field =
     \<lparr> cf_content_types = [1], cf_type = TYPE_TEXT, cf_name = ''site_code'',
       cf_label = [], cf_description = [], cf_required = False,
       cf_filter_logic = FILTER_LOOSE, cf_default = PNone, cf_weight = 100,
       cf_validation_minimum = None, cf_validation_maximum = None,
       cf_validation_regex = None, cf_choices = None \<rparr>"

text \<open>The patterns \<^verbatim>\<open>[A-Z]{3}\<close> and \<^verbatim>\<open>^[A-Z]{3}$\<close>.\<close>

definition upper :: rx where
  "upper = Cls ''ABCDEFGHIJKLMNOPQRSTUVWXYZ''"

definition three_upper :: rx where
  "three_upper = Seq upper (Seq upper upper)"

definition three_upper_anchored :: rx where
  "three_upper_anchored = Seq Bol (Seq three_upper Eol)"

text \<open>The pattern \<^verbatim>\<open>a(?!b)\<close>: an a that is not followed by a b.\<close>

definition a_not_before_b :: rx where
  "a_not_before_b = Seq (Chr CHR ''a'') (NotAhead (Chr CHR ''b''))"


section \<open>Properties\<close>

subsection \<open>Empty values\<close>

lemma py_in_empty_iff: "py_in v [PNone, PStr []] \<longleftrightarrow> v = PNone \<or> v = PStr []"
  by (cases v) (auto simp: py_in_def)

text \<open>
  C6. For every field definition and every absent or empty value (\<^verbatim>\<open>None\<close> or the
  empty string), \<open>validate\<close> raises the error "Required field cannot be empty" if and
  only if the field is required; when the field is not required it returns normally,
  whatever the type of the field, so that no check of a type is applied.
\<close>

theorem validate_empty_required:
  "v = PNone \<or> v = PStr [] \<Longrightarrow>
     validate self v =
       (if cf_required self then Inl (ValidationError Required_field_cannot_be_empty)
        else Inr ())"
  by (auto simp: validate_def py_in_def)

theorem validate_empty_required_witness:
  "validate (example_field\<lparr>cf_required := True\<rparr>) PNone
     = Inl (ValidationError Required_field_cannot_be_empty)
   \<and> validate (example_field\<lparr>cf_required := True\<rparr>) (PStr [])
     = Inl (ValidationError Required_field_cannot_be_empty)
   \<and> validate (example_field\<lparr>cf_type := TYPE_INTEGER\<rparr>) (PStr []) = Inr ()
   \<and> validate (example_field\<lparr>cf_type := TYPE_DATE\<rparr>) PNone = Inr ()"
  using validate_empty_required [of PNone "example_field\<lparr>cf_required := True\<rparr>"]
    validate_empty_required [of "PStr []" "example_field\<lparr>cf_required := True\<rparr>"]
    validate_empty_required [of "PStr []" "example_field\<lparr>cf_type := TYPE_INTEGER\<rparr>"]
    validate_empty_required [of PNone "example_field\<lparr>cf_type := TYPE_DATE\<rparr>"]
  by (simp add: example_field_def)

subsection \<open>Matching a pattern\<close>

text \<open>
  The equation of the star refers to itself, so it is applied by hand.
\<close>

declare rx_ends.simps(8) [simp del]

lemma rx_ends_Star_iff:
  "k \<in> set (rx_ends (Star a) s i) \<longleftrightarrow>
     k = i \<or> (\<exists>j. j \<in> set (rx_ends a s i) \<and> i < j \<and> j \<le> length s
                  \<and> k \<in> set (rx_ends (Star a) s j))"
  by (subst rx_ends.simps(8)) auto

lemma rx_ends_ge: "k \<in> set (rx_ends r s i) \<Longrightarrow> i \<le> k"
proof (induction r s i arbitrary: k rule: rx_ends.induct)
  case (6 a b s i)
  then obtain j where j: "j \<in> set (rx_ends a s i)" and k: "k \<in> set (rx_ends b s j)"
    by auto
  from "6.IH"(1)[OF j] "6.IH"(2)[OF j k] show ?case by simp
next
  case (8 a s i)
  show ?case
  proof (cases "k = i")
    case True
    then show ?thesis by (simp add: rx_ends_Star_iff [of i _ _ i])
  next
    case False
    with "8.prems" obtain j where j: "j \<in> set (rx_ends a s i)" and ij: "i < j" "j \<le> length s"
      and k: "k \<in> set (rx_ends (Star a) s j)"
      by (auto simp: rx_ends_Star_iff [of k a s i])
    have "j \<le> k" by (rule "8.IH"(2)) (use j ij k in simp_all)
    with ij show ?thesis by simp
  qed
qed (auto split: if_splits)

lemma rx_ends_le: "k \<in> set (rx_ends r s i) \<Longrightarrow> i \<le> length s \<Longrightarrow> k \<le> length s"
proof (induction r s i arbitrary: k rule: rx_ends.induct)
  case (6 a b s i)
  then obtain j where j: "j \<in> set (rx_ends a s i)" and k: "k \<in> set (rx_ends b s j)"
    by auto
  have "j \<le> length s" by (rule "6.IH"(1)[OF j "6.prems"(2)])
  then show ?case by (rule "6.IH"(2)[OF j k])
next
  case (8 a s i)
  show ?case
  proof (cases "k = i")
    case True
    with "8.prems" show ?thesis by simp
  next
    case False
    with "8.prems" obtain j where j: "j \<in> set (rx_ends a s i)" and ij: "i < j" "j \<le> length s"
      and k: "k \<in> set (rx_ends (Star a) s j)"
      by (auto simp: rx_ends_Star_iff [of k a s i])
    show ?thesis by (rule "8.IH"(2)) (use j ij k in simp_all)
  qed
qed (auto split: if_splits)

lemma rx_ends_SeqI:
  "j \<in> set (rx_ends a s i) \<Longrightarrow> k \<in> set (rx_ends b s j) \<Longrightarrow> k \<in> set (rx_ends (Seq a b) s i)"
  by auto

lemma rx_ends_StarI:
  "j \<in> set (rx_ends a s i) \<Longrightarrow> i < j \<Longrightarrow> j \<le> length s \<Longrightarrow> k \<in> set (rx_ends (Star a) s j)
     \<Longrightarrow> k \<in> set (rx_ends (Star a) s i)"
  by (subst rx_ends_Star_iff) blast

lemma rx_ends_append:
  "\<not> looks_ahead r \<Longrightarrow> k \<in> set (rx_ends r s i) \<Longrightarrow> k \<in> set (rx_ends r (s @ t) i)"
proof (induction r s i arbitrary: k rule: rx_ends.induct)
  case (6 a b s i)
  then obtain j where j: "j \<in> set (rx_ends a s i)" and k: "k \<in> set (rx_ends b s j)"
    by auto
  from "6.prems"(1) have na: "\<not> looks_ahead a" and nb: "\<not> looks_ahead b" by simp_all
  show ?case
    by (rule rx_ends_SeqI [OF "6.IH"(1)[OF na j] "6.IH"(2)[OF j nb k]])
next
  case (7 a b s i)
  then show ?case by auto
next
  case (8 a s i)
  show ?case
  proof (cases "k = i")
    case True
    then show ?thesis by (simp add: rx_ends_Star_iff [of i _ _ i])
  next
    case False
    with "8.prems" obtain j where j: "j \<in> set (rx_ends a s i)" and ij: "i < j" "j \<le> length s"
      and k: "k \<in> set (rx_ends (Star a) s j)"
      by (auto simp: rx_ends_Star_iff [of k a s i])
    from "8.prems"(1) have na: "\<not> looks_ahead a" by simp
    have j': "j \<in> set (rx_ends a (s @ t) i)" by (rule "8.IH"(1)[OF na j])
    have k': "k \<in> set (rx_ends (Star a) (s @ t) j)"
      by (rule "8.IH"(2)) (use j ij k "8.prems"(1) in simp_all)
    show ?thesis by (rule rx_ends_StarI [OF j' ij(1) _ k']) (use ij in simp)
  qed
qed (simp_all add: nth_append split: if_splits)

lemma rx_ends_take:
  "\<not> looks_ahead r \<Longrightarrow> k \<in> set (rx_ends r s i) \<Longrightarrow> k \<le> n \<Longrightarrow> k \<in> set (rx_ends r (take n s) i)"
proof (induction r s i arbitrary: k rule: rx_ends.induct)
  case (6 a b s i)
  then obtain j where j: "j \<in> set (rx_ends a s i)" and k: "k \<in> set (rx_ends b s j)"
    by auto
  from "6.prems"(1) have na: "\<not> looks_ahead a" and nb: "\<not> looks_ahead b" by simp_all
  have jk: "j \<le> k" by (rule rx_ends_ge[OF k])
  with "6.prems"(3) have jn: "j \<le> n" by simp
  show ?case
    by (rule rx_ends_SeqI [OF "6.IH"(1)[OF na j jn] "6.IH"(2)[OF j nb k "6.prems"(3)]])
next
  case (7 a b s i)
  then show ?case by auto
next
  case (8 a s i)
  show ?case
  proof (cases "k = i")
    case True
    then show ?thesis by (simp add: rx_ends_Star_iff [of i _ _ i])
  next
    case False
    with "8.prems" obtain j where j: "j \<in> set (rx_ends a s i)" and ij: "i < j" "j \<le> length s"
      and k: "k \<in> set (rx_ends (Star a) s j)"
      by (auto simp: rx_ends_Star_iff [of k a s i])
    from "8.prems"(1) have na: "\<not> looks_ahead a" by simp
    have jk: "j \<le> k" by (rule rx_ends_ge[OF k])
    with "8.prems"(3) have jn: "j \<le> n" by simp
    have j': "j \<in> set (rx_ends a (take n s) i)" by (rule "8.IH"(1)[OF na j jn])
    have k': "k \<in> set (rx_ends (Star a) (take n s) j)"
      by (rule "8.IH"(2)) (use j ij k "8.prems" in simp_all)
    show ?thesis by (rule rx_ends_StarI [OF j' ij(1) _ k']) (use ij jn in simp)
  qed
qed (simp_all split: if_splits)

lemma re_match_prefix_iff:
  assumes "\<not> looks_ahead r"
  shows "re_match r s \<longleftrightarrow> (\<exists>p. prefix p s \<and> re_fullmatch r p)"
proof
  assume "re_match r s"
  then obtain k where k: "k \<in> set (rx_ends r s 0)"
    by (cases "rx_ends r s 0") (auto simp: re_match_def)
  then have kl: "k \<le> length s" by (rule rx_ends_le) simp
  from rx_ends_take[OF assms k, of k] have "k \<in> set (rx_ends r (take k s) 0)" by simp
  with kl have "re_fullmatch r (take k s)" by (simp add: re_fullmatch_def)
  moreover have "prefix (take k s) s" by (rule take_is_prefix)
  ultimately show "\<exists>p. prefix p s \<and> re_fullmatch r p" by blast
next
  assume "\<exists>p. prefix p s \<and> re_fullmatch r p"
  then obtain p t where s: "s = p @ t" and p: "length p \<in> set (rx_ends r p 0)"
    by (auto simp: prefix_def re_fullmatch_def)
  from rx_ends_append[OF assms p, of t] s show "re_match r s"
    by (auto simp: re_match_def)
qed

subsection \<open>Text fields with a pattern\<close>

text \<open>
  C5, as the claim states it, at two inputs. The empty string: the field is not
  required, its pattern \<^verbatim>\<open>^[A-Z]{3}$\<close> matches no prefix of the empty string, and
  \<open>validate\<close> returns normally all the same, because an empty value never reaches the
  pattern. A pattern without anchors that does not accept every string whose prefix
  it matches: \<^verbatim>\<open>a(?!b)\<close> matches the string a in full and \<open>validate\<close> accepts a,
  but it raises "Value must match regex" for ab.
\<close>

theorem validate_text_regex_exceptions:
  "validate (example_field\<lparr>cf_validation_regex := Some three_upper_anchored\<rparr>) (PStr []) = Inr ()
   \<and> \<not> re_match three_upper_anchored []
   \<and> validate (example_field\<lparr>cf_validation_regex := Some a_not_before_b\<rparr>) (PStr ''a'') = Inr ()
   \<and> re_fullmatch a_not_before_b ''a''
   \<and> validate (example_field\<lparr>cf_validation_regex := Some a_not_before_b\<rparr>) (PStr ''ab'')
       = Inl (ValidationError Value_must_match_regex)"
  by (simp add: validate_def and_then_def py_in_def example_field_def re_match_def
      re_fullmatch_def three_upper_anchored_def three_upper_def upper_def a_not_before_b_def)

text \<open>
  C5, amended. For every text field with a pattern and every string value that is not
  empty, \<open>validate\<close> returns normally if and only if \<^verbatim>\<open>re.match\<close> finds a match,
  that is, a match that starts at position 0 and ends at some position of the value,
  not necessarily its end; otherwise it raises "Value must match regex". For the
  patterns built from characters, \<^verbatim>\<open>.\<close>, character classes, concatenation,
  alternation, repetition and \<^verbatim>\<open>^\<close>, which hold no assertion about the text that
  follows (no \<^verbatim>\<open>$\<close>, \<^verbatim>\<open>\Z\<close>, \<^verbatim>\<open>\b\<close> or lookahead), a match exists exactly when the
  pattern matches some prefix of the value in full, so that every extension of an
  accepted value is accepted as well: matching the whole string needs an explicit
  anchor.
\<close>

theorem validate_text_regex:
  assumes "cf_type self = TYPE_TEXT" and "cf_validation_regex self = Some r" and "s \<noteq> []"
  shows "validate self (PStr s)
           = (if re_match r s then Inr () else Inl (ValidationError Value_must_match_regex))
         \<and> (re_match r s \<longleftrightarrow> (\<exists>k. k \<le> length s \<and> k \<in> set (rx_ends r s 0)))
         \<and> (\<not> looks_ahead r \<longrightarrow> (re_match r s \<longleftrightarrow> (\<exists>p. prefix p s \<and> re_fullmatch r p)))
         \<and> (\<not> looks_ahead r \<longrightarrow> re_match r s \<longrightarrow> validate self (PStr (s @ t)) = Inr ())"
proof (intro conjI impI)
  have v: "validate self (PStr u)
           = (if re_match r u then Inr () else Inl (ValidationError Value_must_match_regex))"
    if "u \<noteq> []" for u
    using assms(1,2) that by (simp add: validate_def and_then_def py_in_def)
  from v[OF assms(3)] show "validate self (PStr s)
           = (if re_match r s then Inr () else Inl (ValidationError Value_must_match_regex))" .
  show "re_match r s \<longleftrightarrow> (\<exists>k. k \<le> length s \<and> k \<in> set (rx_ends r s 0))"
  proof
    assume "re_match r s"
    then obtain k where k: "k \<in> set (rx_ends r s 0)"
      by (cases "rx_ends r s 0") (auto simp: re_match_def)
    then have "k \<le> length s" by (rule rx_ends_le) simp
    with k show "\<exists>k. k \<le> length s \<and> k \<in> set (rx_ends r s 0)" by blast
  next
    assume "\<exists>k. k \<le> length s \<and> k \<in> set (rx_ends r s 0)"
    then show "re_match r s" by (auto simp: re_match_def)
  qed
  show "re_match r s \<longleftrightarrow> (\<exists>p. prefix p s \<and> re_fullmatch r p)" if "\<not> looks_ahead r"
    using that by (rule re_match_prefix_iff)
  show "validate self (PStr (s @ t)) = Inr ()" if n: "\<not> looks_ahead r" and m: "re_match r s"
  proof -
    from m obtain k where k: "k \<in> set (rx_ends r s 0)"
      by (cases "rx_ends r s 0") (auto simp: re_match_def)
    from rx_ends_append[OF n k, of t] have "re_match r (s @ t)"
      by (auto simp: re_match_def)
    moreover from assms(3) have "s @ t \<noteq> []" by simp
    ultimately show ?thesis using v[of "s @ t"] by simp
  qed
qed

theorem validate_text_regex_witness:
  "validate (example_field\<lparr>cf_validation_regex := Some three_upper\<rparr>) (PStr ''ABC'') = Inr ()
   \<and> validate (example_field\<lparr>cf_validation_regex := Some three_upper\<rparr>) (PStr ''ABCD'') = Inr ()
   \<and> re_fullmatch three_upper ''ABC''
   \<and> validate (example_field\<lparr>cf_validation_regex := Some three_upper_anchored\<rparr>) (PStr ''ABCD'')
       = Inl (ValidationError Value_must_match_regex)
   \<and> validate (example_field\<lparr>cf_validation_regex := Some three_upper_anchored\<rparr>) (PStr ''abc'')
       = Inl (ValidationError Value_must_match_regex)"
proof -
  have m: "re_match three_upper ''ABC''"
    by (simp add: re_match_def three_upper_def upper_def)
  have n: "\<not> looks_ahead three_upper"
    by (simp add: three_upper_def upper_def)
  have f: "re_fullmatch three_upper ''ABC''"
    by (simp add: re_fullmatch_def three_upper_def upper_def)
  have a1: "\<not> re_match three_upper_anchored ''ABCD''"
    by (simp add: re_match_def three_upper_anchored_def three_upper_def upper_def)
  have a2: "\<not> re_match three_upper_anchored ''abc''"
    by (simp add: re_match_def three_upper_anchored_def three_upper_def upper_def)
  show ?thesis
    using validate_text_regex
        [of "example_field\<lparr>cf_validation_regex := Some three_upper\<rparr>" three_upper "''ABC''" "''D''"]
      validate_text_regex
        [of "example_field\<lparr>cf_validation_regex := Some three_upper_anchored\<rparr>"
            three_upper_anchored "''ABCD''" "[]"]
      validate_text_regex
        [of "example_field\<lparr>cf_validation_regex := Some three_upper_anchored\<rparr>"
            three_upper_anchored "''abc''" "[]"]
      m n f a1 a2
    by (simp add: example_field_def)
qed


subsection \<open>Integer fields\<close>

text \<open>
  C8. For every integer field and every value that is not empty, \<open>validate\<close> returns
  normally if and only if the value is an integer that lies between the minimum and
  the maximum, both included, a bound that is not set leaving its side open. An
  integer below the minimum raises "Value must be at least", one above the maximum
  raises "Value must not exceed" (unless it is below the minimum as well, which is
  reported first), and a value that is not an integer raises "Value must be an
  integer". A boolean is not an integer here: the source tests the exact type.
\<close>

theorem validate_integer_range:
  assumes "cf_type self = TYPE_INTEGER" and "v \<noteq> PNone" and "v \<noteq> PStr []"
  shows "(validate self v = Inr () \<longleftrightarrow>
            (\<exists>i. v = PInt i
               \<and> (case cf_validation_minimum self of None \<Rightarrow> True | Some lo \<Rightarrow> lo \<le> i)
               \<and> (case cf_validation_maximum self of None \<Rightarrow> True | Some hi \<Rightarrow> i \<le> hi)))
         \<and> (\<forall>i lo. v = PInt i \<and> cf_validation_minimum self = Some lo \<and> i < lo \<longrightarrow>
               validate self v = Inl (ValidationError (Value_must_be_at_least lo)))
         \<and> (\<forall>i hi. v = PInt i \<and> cf_validation_maximum self = Some hi \<and> hi < i \<longrightarrow>
               validate self v = Inl (ValidationError (Value_must_not_exceed hi))
               \<or> (\<exists>lo. cf_validation_minimum self = Some lo \<and> i < lo
                     \<and> validate self v = Inl (ValidationError (Value_must_be_at_least lo))))
         \<and> ((\<forall>i. v \<noteq> PInt i) \<longrightarrow>
               validate self v = Inl (ValidationError Value_must_be_an_integer))"
proof -
  have ne: "\<not> py_in v [PNone, PStr []]"
    using assms(2,3) by (simp add: py_in_empty_iff)
  show ?thesis
  proof (cases v)
    case (PInt i)
    then show ?thesis
      using assms(1) ne
      by (auto simp: validate_def and_then_def split: option.splits)
  qed (use assms(1) ne in \<open>simp_all add: validate_def and_then_def\<close>)
qed

theorem validate_integer_range_witness:
  "validate (example_field\<lparr>cf_type := TYPE_INTEGER, cf_validation_minimum := Some 1,
                            cf_validation_maximum := Some 10\<rparr>) (PInt 0)
     = Inl (ValidationError (Value_must_be_at_least 1))
   \<and> validate (example_field\<lparr>cf_type := TYPE_INTEGER, cf_validation_minimum := Some 1,
                              cf_validation_maximum := Some 10\<rparr>) (PInt 10) = Inr ()
   \<and> validate (example_field\<lparr>cf_type := TYPE_INTEGER, cf_validation_minimum := Some 1,
                              cf_validation_maximum := Some 10\<rparr>) (PInt 11)
     = Inl (ValidationError (Value_must_not_exceed 10))
   \<and> validate (example_field\<lparr>cf_type := TYPE_INTEGER, cf_validation_minimum := Some 1,
                              cf_validation_maximum := Some 10\<rparr>) (PBool True)
     = Inl (ValidationError Value_must_be_an_integer)"
  using validate_integer_range
      [of "example_field\<lparr>cf_type := TYPE_INTEGER, cf_validation_minimum := Some 1,
                         cf_validation_maximum := Some 10\<rparr>" "PInt 0"]
    validate_integer_range
      [of "example_field\<lparr>cf_type := TYPE_INTEGER, cf_validation_minimum := Some 1,
                         cf_validation_maximum := Some 10\<rparr>" "PInt 10"]
    validate_integer_range
      [of "example_field\<lparr>cf_type := TYPE_INTEGER, cf_validation_minimum := Some 1,
                         cf_validation_maximum := Some 10\<rparr>" "PInt 11"]
    validate_integer_range
      [of "example_field\<lparr>cf_type := TYPE_INTEGER, cf_validation_minimum := Some 1,
                         cf_validation_maximum := Some 10\<rparr>" "PBool True"]
  by (simp add: example_field_def)

subsection \<open>Date fields\<close>

text \<open>
  C10. For a date field, \<open>validate\<close> applied to a value that is not empty and is
  neither a \<^verbatim>\<open>date\<close> object nor a string (an integer, a \<^verbatim>\<open>datetime\<close>, a list)
  does not raise the validation error about the date format: \<^verbatim>\<open>strptime\<close> is handed
  something that is not a string and raises \<^verbatim>\<open>TypeError\<close>, which the handler for
  \<^verbatim>\<open>ValueError\<close> lets through.
\<close>

theorem validate_date_type_error:
  assumes "cf_type self = TYPE_DATE" and "v \<noteq> PNone"
    and "\<forall>s. v \<noteq> PStr s" and "\<forall>y m d. v \<noteq> PDate y m d"
  shows "validate self v = Inl TypeError
         \<and> validate self v \<noteq> Inl (ValidationError Date_values_must_be_in_the_format)"
proof -
  have ne: "\<not> py_in v [PNone, PStr []]"
    using assms(2,3) by (simp add: py_in_empty_iff)
  show ?thesis
    using assms ne by (cases v) (simp_all add: validate_def and_then_def)
qed

theorem validate_date_type_error_witness:
  "validate (example_field\<lparr>cf_type := TYPE_DATE\<rparr>) (PInt 20200101) = Inl TypeError
   \<and> validate (example_field\<lparr>cf_type := TYPE_DATE\<rparr>) (PDateTime 2020 1 1 0 0 0 0) = Inl TypeError
   \<and> validate (example_field\<lparr>cf_type := TYPE_DATE\<rparr>) (PList [PStr ''2020-01-01'']) = Inl TypeError"
  using validate_date_type_error [of "example_field\<lparr>cf_type := TYPE_DATE\<rparr>" "PInt 20200101"]
    validate_date_type_error [of "example_field\<lparr>cf_type := TYPE_DATE\<rparr>" "PDateTime 2020 1 1 0 0 0 0"]
    validate_date_type_error [of "example_field\<lparr>cf_type := TYPE_DATE\<rparr>" "PList [PStr ''2020-01-01'']"]
  by (simp add: example_field_def)

text \<open>A string goes through \<^verbatim>\<open>strptime\<close>, and only there the format error arises.\<close>

lemma validate_date_string:
  "cf_type self = TYPE_DATE \<Longrightarrow> s \<noteq> [] \<Longrightarrow>
     validate self (PStr s) =
       (case strptime_ymd s of
          None \<Rightarrow> Inl (ValidationError Date_values_must_be_in_the_format)
        | Some _ \<Rightarrow> Inr ())"
  by (simp add: validate_def and_then_def py_in_def split: option.splits)

lemma validate_date_string_examples:
  "validate (example_field\<lparr>cf_type := TYPE_DATE\<rparr>) (PStr ''2020-02-29'') = Inr ()
   \<and> validate (example_field\<lparr>cf_type := TYPE_DATE\<rparr>) (PStr ''2021-02-29'')
       = Inl (ValidationError Date_values_must_be_in_the_format)
   \<and> validate (example_field\<lparr>cf_type := TYPE_DATE\<rparr>) (PDate 2020 2 29) = Inr ()"
  by (simp add: validate_def and_then_def py_in_def example_field_def strptime_ymd_def
      is_digit_def digit_val_def days_in_month_def is_leap_def)

subsection \<open>Multiple selection fields\<close>

text \<open>
  C9, at a collection with an element that is not a string: with the choices a, b, c
  the value \<^verbatim>\<open>["a", 5]\<close> is not a subset of the choices, and building the message
  with \<^verbatim>\<open>', '.join(value)\<close> raises \<^verbatim>\<open>TypeError\<close> in the place of the validation
  error; a field whose choices are null raises \<^verbatim>\<open>TypeError\<close> for every collection.
  A collection of strings is accepted or rejected with "Invalid choice(s)".
\<close>

theorem validate_multiselect_untyped_error:
  "validate (example_field\<lparr>cf_type := TYPE_MULTISELECT, cf_choices := Some [''a'', ''b'', ''c'']\<rparr>)
       (PList [PStr ''a'', PInt 5]) = Inl TypeError
   \<and> validate (example_field\<lparr>cf_type := TYPE_MULTISELECT\<rparr>) (PList [PStr ''a'']) = Inl TypeError
   \<and> validate (example_field\<lparr>cf_type := TYPE_MULTISELECT, cf_choices := Some [''a'', ''b'', ''c'']\<rparr>)
       (PList [PStr ''a'', PStr ''z''])
       = Inl (ValidationError (Invalid_choices ''a, z'' [''a'', ''b'', ''c'']))
   \<and> validate (example_field\<lparr>cf_type := TYPE_MULTISELECT, cf_choices := Some [''a'', ''b'', ''c'']\<rparr>)
       (PList [PStr ''c'', PStr ''a'', PStr ''c'']) = Inr ()"
  by (simp add: validate_def and_then_def py_in_def example_field_def py_set_def issubset_def
      py_join_def)

text \<open>
  For collections of strings and a field with choices the check is the inclusion of
  sets, whatever the order and the repetitions of the elements.
\<close>

lemma py_in_strings: "py_in x (map PStr cs) \<longleftrightarrow> (\<exists>c \<in> set cs. x = PStr c)"
  by (cases x) (auto simp: py_in_def list_ex_iff)

lemma issubset_strings: "issubset (map PStr ss) cs \<longleftrightarrow> set ss \<subseteq> set cs"
  by (auto simp: issubset_def py_in_strings list_all_iff)

lemma validate_multiselect_strings:
  assumes "cf_type self = TYPE_MULTISELECT" and "cf_choices self = Some cs"
  shows "validate self (PList (map PStr ss)) =
           (if set ss \<subseteq> set cs then Inr ()
            else Inl (ValidationError (Invalid_choices (join '', '' ss) cs)))"
proof -
  have h: "list_all py_hashable (map PStr ss)" by (simp add: list_all_iff)
  have s: "list_all is_str (map PStr ss)" by (simp add: list_all_iff)
  have m: "map str_of (map PStr ss) = ss" by (simp add: comp_def)
  show ?thesis
    using assms h s m
    by (simp add: validate_def and_then_def py_in_def py_set_def py_join_def issubset_strings)
qed

subsection \<open>Saving a selection field\<close>

text \<open>
  C2, at a selection field with no choices: \<open>clean\<close> accepts the field when the list
  of choices is empty and when it is null; only a list of exactly one choice is
  rejected with "Selection fields must specify at least two choices".
\<close>

theorem clean_select_without_choices:
  "clean (example_field\<lparr>cf_type := TYPE_SELECT, cf_choices := Some []\<rparr>) = Inr ()
   \<and> clean (example_field\<lparr>cf_type := TYPE_SELECT, cf_choices := None\<rparr>) = Inr ()
   \<and> clean (example_field\<lparr>cf_type := TYPE_SELECT, cf_choices := Some [''a'']\<rparr>)
       = Inl (ValidationErrorDict ''choices'' Selection_fields_need_two_choices)"
  by (simp add: clean_def and_then_def example_field_def)

subsection \<open>The default value at saving\<close>

lemma py_iter_raises: "py_iter v = Inl e \<Longrightarrow> e = TypeError"
  by (cases v) auto

lemma validate_raises:
  "validate self v = Inl e \<Longrightarrow> e = TypeError \<or> (\<exists>m. e = ValidationError m)"
  by (auto simp: validate_def and_then_def py_set_def py_join_def
      split: if_splits option.splits pyval.splits sum.splits dest: py_iter_raises)

lemma py_truthy_not_empty: "py_truthy v \<Longrightarrow> \<not> py_in v [PNone, PStr []]"
  by (cases v) (auto simp: py_in_def)

lemma validate_select_member:
  assumes "cf_type self = TYPE_SELECT" and "py_truthy v" and "validate self v = Inr ()"
  shows "not_in_choices v (cf_choices self) = Inr False"
  using assms py_truthy_not_empty[OF assms(2)]
  by (auto simp: validate_def and_then_def not_in_choices_def split: option.splits if_splits)

lemma default_value_select: "cf_type self = TYPE_SELECT \<Longrightarrow> default_value self = cf_default self"
  by (simp add: default_value_def)

lemma clean_after_valid_default:
  assumes "validate self (default_value self) = Inr ()"
  shows "clean self \<noteq> Inl (ValidationErrorDict ''default'' m)"
proof (cases "cf_type self = TYPE_SELECT \<and> py_truthy (cf_default self)")
  case True
  then have "not_in_choices (cf_default self) (cf_choices self) = Inr False"
    using validate_select_member[of self "cf_default self"] assms
    by (simp add: default_value_select)
  then show ?thesis
    using True assms by (simp add: clean_def and_then_def)
next
  case False
  then show ?thesis
    using assms by (auto simp: clean_def and_then_def)
qed

text \<open>
  C3, as the claim states it, at a text field with the default 5: \<open>validate\<close> rejects
  the integer 5 ("Value must be a string"), and \<open>clean\<close> accepts the field, because it
  validates \<^verbatim>\<open>str(self.default)\<close> for a text field.
\<close>

theorem clean_text_default_converted:
  "validate (example_field\<lparr>cf_default := PInt 5\<rparr>) (PInt 5)
     = Inl (ValidationError Value_must_be_a_string)
   \<and> clean (example_field\<lparr>cf_default := PInt 5\<rparr>) = Inr ()"
  by (simp add: validate_def clean_def and_then_def py_in_def example_field_def
      default_value_def str_int_def char_of_def bit_Suc_0_iff)

text \<open>
  C3, amended. For every field whose default is not \<^verbatim>\<open>None\<close>, \<open>clean\<close> raises a
  validation error attributed to \<^verbatim>\<open>default\<close> if and only if \<open>validate\<close> raises a
  validation error for the value \<open>default_value\<close>, which is the default itself for
  every type but text and \<^verbatim>\<open>str(default)\<close> for a text field; and whenever
  \<open>validate\<close> does not accept that value, \<open>clean\<close> does not accept the field.
\<close>

theorem clean_default_error:
  assumes "cf_default self \<noteq> PNone"
  shows "((\<exists>m. clean self = Inl (ValidationErrorDict ''default'' m)) \<longleftrightarrow>
            (\<exists>m. validate self (default_value self) = Inl (ValidationError m)))
         \<and> (validate self (default_value self) \<noteq> Inr () \<longrightarrow> clean self \<noteq> Inr ())
         \<and> default_value self =
             (if cf_type self = TYPE_TEXT then PStr (py_str (cf_default self))
              else cf_default self)"
proof (intro conjI impI)
  show "(\<exists>m. clean self = Inl (ValidationErrorDict ''default'' m)) \<longleftrightarrow>
          (\<exists>m. validate self (default_value self) = Inl (ValidationError m))"
  proof (cases "validate self (default_value self)")
    case (Inl e)
    from validate_raises[OF Inl] show ?thesis
    proof
      assume "e = TypeError"
      with Inl assms show ?thesis by (simp add: clean_def and_then_def)
    next
      assume "\<exists>m. e = ValidationError m"
      with Inl assms show ?thesis by (auto simp: clean_def and_then_def)
    qed
  next
    case (Inr u)
    then have "validate self (default_value self) = Inr ()" by simp
    from clean_after_valid_default[OF this] Inr show ?thesis by simp
  qed
  show "clean self \<noteq> Inr ()" if "validate self (default_value self) \<noteq> Inr ()"
  proof (cases "validate self (default_value self)")
    case (Inl e)
    with assms show ?thesis
      by (cases e) (simp_all add: clean_def and_then_def)
  next
    case (Inr u)
    with that show ?thesis by simp
  qed
  show "default_value self =
          (if cf_type self = TYPE_TEXT then PStr (py_str (cf_default self)) else cf_default self)"
    by (simp add: default_value_def)
qed

theorem clean_default_error_witness:
  "clean (example_field\<lparr>cf_type := TYPE_INTEGER, cf_default := PStr ''five''\<rparr>)
     = Inl (ValidationErrorDict ''default''
              (Invalid_default_value (PStr ''five'') Value_must_be_an_integer))
   \<and> clean (example_field\<lparr>cf_type := TYPE_INTEGER, cf_default := PInt 5\<rparr>) = Inr ()
   \<and> clean (example_field\<lparr>cf_validation_regex := Some three_upper_anchored, cf_default := PInt 5\<rparr>)
     = Inl (ValidationErrorDict ''default''
              (Invalid_default_value (PInt 5) Value_must_match_regex))"
proof -
  have a: "validate (example_field\<lparr>cf_type := TYPE_INTEGER, cf_default := PStr ''five''\<rparr>)
             (PStr ''five'') = Inl (ValidationError Value_must_be_an_integer)"
    by (simp add: validate_def and_then_def py_in_def example_field_def)
  have b: "validate (example_field\<lparr>cf_type := TYPE_INTEGER, cf_default := PInt 5\<rparr>) (PInt 5)
             = Inr ()"
    by (simp add: validate_def and_then_def py_in_def example_field_def)
  have c: "validate
             (example_field\<lparr>cf_validation_regex := Some three_upper_anchored, cf_default := PInt 5\<rparr>)
             (PStr ''5'') = Inl (ValidationError Value_must_match_regex)"
    by (simp add: validate_def and_then_def py_in_def example_field_def re_match_def
        three_upper_anchored_def three_upper_def upper_def)
  show ?thesis
    using clean_default_error
        [of "example_field\<lparr>cf_type := TYPE_INTEGER, cf_default := PStr ''five''\<rparr>"]
      clean_default_error [of "example_field\<lparr>cf_type := TYPE_INTEGER, cf_default := PInt 5\<rparr>"]
      clean_default_error
        [of "example_field\<lparr>cf_validation_regex := Some three_upper_anchored, cf_default := PInt 5\<rparr>"]
      a b c
    by (simp add: example_field_def default_value_def str_int_def clean_def and_then_def
        char_of_def bit_Suc_0_iff)
qed

subsection \<open>The initial value of the form field\<close>

text \<open>
  C4, as the claim states it, at a selection field whose default is not one of the
  choices: a multiple selection field with the choices a, b and the default
  \<^verbatim>\<open>["a"]\<close>, which \<open>clean\<close> accepts, gets the initial value \<^verbatim>\<open>["a"]\<close> although the
  list is not a member of the choices; a selection field with the default z gets the
  initial value z. The claim has the initial value empty in both cases.
\<close>

theorem to_form_field_initial_outside_choices:
  "map_sum id ff_initial
     (to_form_field
        (example_field\<lparr>cf_type := TYPE_MULTISELECT, cf_choices := Some [''a'', ''b''],
                        cf_default := PList [PStr ''a'']\<rparr>) True True False)
     = Inr (PList [PStr ''a''])
   \<and> \<not> py_in (PList [PStr ''a'']) (map PStr [''a'', ''b''])
   \<and> clean (example_field\<lparr>cf_type := TYPE_MULTISELECT, cf_choices := Some [''a'', ''b''],
                           cf_default := PList [PStr ''a'']\<rparr>) = Inr ()
   \<and> map_sum id ff_initial
     (to_form_field
        (example_field\<lparr>cf_type := TYPE_SELECT, cf_choices := Some [''a'', ''b''],
                        cf_default := PStr ''z''\<rparr>) True True False)
     = Inr (PStr ''z'')
   \<and> \<not> py_in (PStr ''z'') (map PStr [''a'', ''b''])"
  by (simp add: to_form_field_def plain_field_def Let_def example_field_def py_in_def
      clean_def validate_def and_then_def default_value_def py_set_def issubset_def)

text \<open>
  C4, amended. Whenever \<open>to_form_field\<close> returns a form field, its initial value is
  the default of the definition when \<open>set_initial\<close> is true and \<^verbatim>\<open>None\<close> when it is
  false, for every type, whether or not the default is one of the choices. The method
  returns a form field for every definition but a selection field whose choices are
  null, for which it raises \<^verbatim>\<open>TypeError\<close>.
\<close>

theorem to_form_field_initial:
  "(cf_choices self \<noteq> None \<or> (cf_type self \<noteq> TYPE_SELECT \<and> cf_type self \<noteq> TYPE_MULTISELECT)
      \<longrightarrow> (\<exists>f. to_form_field self set_initial enforce_required for_csv_import = Inr f))
   \<and> (\<forall>f. to_form_field self set_initial enforce_required for_csv_import = Inr f \<longrightarrow>
          ff_initial f = (if set_initial then cf_default self else PNone))
   \<and> (cf_choices self = None \<and> (cf_type self = TYPE_SELECT \<or> cf_type self = TYPE_MULTISELECT)
      \<longrightarrow> to_form_field self set_initial enforce_required for_csv_import = Inl TypeError)"
proof -
  have t: "py_truthy (if b then cf_default self else PNone) \<Longrightarrow>
             (if b then cf_default self else PNone) = cf_default self" for b
    by (cases b) simp_all
  show ?thesis
    by (cases "cf_type self"; cases "cf_choices self")
      (auto simp: to_form_field_def plain_field_def Let_def dest: t)
qed

theorem to_form_field_initial_witness:
  "map_sum id ff_initial
     (to_form_field (example_field\<lparr>cf_type := TYPE_INTEGER, cf_default := PInt 7\<rparr>) True True False)
     = Inr (PInt 7)
   \<and> map_sum id ff_initial
     (to_form_field (example_field\<lparr>cf_type := TYPE_INTEGER, cf_default := PInt 7\<rparr>) False True False)
     = Inr PNone
   \<and> map_sum id ff_initial
     (to_form_field
        (example_field\<lparr>cf_type := TYPE_SELECT, cf_choices := Some [''a'', ''b''],
                        cf_default := PStr ''b''\<rparr>) True True False)
     = Inr (PStr ''b'')"
proof -
  have a: "\<exists>f. to_form_field (example_field\<lparr>cf_type := TYPE_INTEGER, cf_default := PInt 7\<rparr>)
                  True True False = Inr f"
    using to_form_field_initial
        [of "example_field\<lparr>cf_type := TYPE_INTEGER, cf_default := PInt 7\<rparr>" True True False]
    by (simp add: example_field_def)
  have b: "\<exists>f. to_form_field (example_field\<lparr>cf_type := TYPE_INTEGER, cf_default := PInt 7\<rparr>)
                  False True False = Inr f"
    using to_form_field_initial
        [of "example_field\<lparr>cf_type := TYPE_INTEGER, cf_default := PInt 7\<rparr>" False True False]
    by (simp add: example_field_def)
  have c: "\<exists>f. to_form_field
                  (example_field\<lparr>cf_type := TYPE_SELECT, cf_choices := Some [''a'', ''b''],
                                  cf_default := PStr ''b''\<rparr>) True True False = Inr f"
    using to_form_field_initial
        [of "example_field\<lparr>cf_type := TYPE_SELECT, cf_choices := Some [''a'', ''b''],
                            cf_default := PStr ''b''\<rparr>" True True False]
    by (simp add: example_field_def)
  show ?thesis
    using a b c
      to_form_field_initial
        [of "example_field\<lparr>cf_type := TYPE_INTEGER, cf_default := PInt 7\<rparr>" True True False]
      to_form_field_initial
        [of "example_field\<lparr>cf_type := TYPE_INTEGER, cf_default := PInt 7\<rparr>" False True False]
      to_form_field_initial
        [of "example_field\<lparr>cf_type := TYPE_SELECT, cf_choices := Some [''a'', ''b''],
                            cf_default := PStr ''b''\<rparr>" True True False]
    by (auto simp: example_field_def)
qed

subsection \<open>Populating and removing the data of a field\<close>






subsection \<open>Renaming the data of a field\<close>









end
